theory Spec2Isabelle
  imports Complex_Main
begin

section \<open>Data handled by SPMEV.js\<close>

text \<open>
  The script keeps its session in module-level variables and reacts to browser events.
  A handler that awaits a network response is split at the await: the part that runs
  when the event fires, and the part that runs when the response has arrived. Everything
  the script hands to a collaborator (toast, console, WaveSurfer, MediaRecorder, the
  capture device, the network) is written to a log field of the state, so that a call
  made or not made is visible in the result.
\<close>

text \<open>A \<^verbatim>\<open>File\<close> as the upload handler reads it: \<^verbatim>\<open>file.name\<close> and \<^verbatim>\<open>file.type\<close>.\<close>

record jsfile =
  file_name :: string
  file_type :: string

text \<open>
  The event given to \<^verbatim>\<open>handleFileUpload\<close>: a drop carries \<^verbatim>\<open>event.dataTransfer.files\<close>,
  a change of the file input carries \<^verbatim>\<open>event.target.files\<close>.
\<close>

datatype upload_event = Drop "jsfile list" | Change "jsfile list"

text \<open>
  The body of a successful response, of the shape the endpoint promises: \<^verbatim>\<open>data.emotion\<close>
  and \<^verbatim>\<open>data.probabilities\<close>. The numbers are only stored and handed on, never computed
  with.
\<close>

record classification =
  data_emotion :: string
  data_probabilities :: "(string \<times> real) list"

text \<open>
  What \<^verbatim>\<open>await fetch(...)\<close> followed by \<^verbatim>\<open>await response.json()\<close> can deliver: the fetch
  promise rejects with an error message, or it yields a response with its \<^verbatim>\<open>ok\<close> flag
  and a body that parses to a classification or fails to parse.
\<close>

datatype json_result = JsonRejected string | JsonData classification

datatype fetch_outcome = FetchRejected string | FetchResponse bool json_result

text \<open>An element of \<^verbatim>\<open>emotionHistory\<close>: \<^verbatim>\<open>{ time: new Date(), emotion }\<close>.\<close>

record history_entry =
  entry_time :: nat
  entry_emotion :: string

datatype toast_call = ToastError string | ToastSuccess string | ToastWarn string

text \<open>A request handed to \<^verbatim>\<open>fetch\<close>: the payload of the \<^verbatim>\<open>audio\<close> form field.\<close>

datatype request = UploadRequest jsfile | ChunkRequest nat

text \<open>What \<^verbatim>\<open>displayResults\<close> writes into the results container.\<close>

record results_view =
  view_emotion :: "string option"
  view_probabilities :: "(string \<times> real) list option"
  view_history :: "history_entry list"

text \<open>
  The state. The first block is the script's own variables, with \<^verbatim>\<open>null\<close> as \<open>None\<close>;
  object references (\<^verbatim>\<open>wavesurfer\<close>, \<^verbatim>\<open>mediaRecorder\<close>, the object URL in \<^verbatim>\<open>audioData\<close>) are
  the index of the object in the log of created objects. The second block is the DOM
  elements the handlers write. The third block is the collaborators' logs. In the last
  block, \<open>nextSeq\<close> numbers the requests in the order \<^verbatim>\<open>fetch\<close> is called, \<open>inflight\<close> holds
  the requests not yet answered and \<open>resolvedLog\<close> the successful answers in the order
  they arrived; the script itself keeps none of the three, they are bookkeeping of the
  network side used to state properties.
\<close>

record state =
  detectedEmotion :: "string option"
  probabilities :: "(string \<times> real) list option"
  isLoading :: bool
  error :: "string option"
  audioData :: "nat option"
  fileName :: string
  isPlaying :: bool
  volume :: real
  isMuted :: bool
  emotionHistory :: "history_entry list"
  isRealTimeMode :: bool
  wavesurfer :: "nat option"
  mediaRecorder :: "nat option"

  loadingIndicator_display :: bool
  errorDisplay_textContent :: string
  playPauseButton_textContent :: string
  muteButton_textContent :: string
  realTimeButton_textContent :: string
  resultsContainer :: "results_view option"

  toasts :: "toast_call list"
  console :: "(string \<times> string) list"
  objectURLs :: "jsfile list"
  surfersCreated :: "nat option list"
  surfersDestroyed :: "nat list"
  playPauseCalls :: "nat list"
  setVolumeCalls :: "(nat \<times> real) list"
  setMuteCalls :: "(nat \<times> bool) list"
  visualizers :: "nat option list"
  deviceRequests :: nat
  devicePending :: nat
  recorders :: "nat list"
  recorderStopCalls :: "nat list"
  shares :: "string list"

  nextSeq :: nat
  inflight :: "(nat \<times> request) list"
  resolvedLog :: "(nat \<times> classification) list"

text \<open>
  The variables as the script initialises them, nothing logged, no request sent. The
  texts of the page's elements come from the HTML, which is not part of the script; they
  start empty here.
\<close>

definition init_state :: state where
  "init_state = \<lparr>
     detectedEmotion = None, probabilities = None, isLoading = False, error = None,
     audioData = None, fileName = '''', isPlaying = False, volume = 1, isMuted = False,
     emotionHistory = [], isRealTimeMode = False, wavesurfer = None, mediaRecorder = None,
     loadingIndicator_display = False, errorDisplay_textContent = '''',
     playPauseButton_textContent = '''', muteButton_textContent = '''',
     realTimeButton_textContent = '''', resultsContainer = None,
     toasts = [], console = [], objectURLs = [], surfersCreated = [],
     surfersDestroyed = [], playPauseCalls = [], setVolumeCalls = [], setMuteCalls = [],
     visualizers = [], deviceRequests = 0, devicePending = 0, recorders = [],
     recorderStopCalls = [], shares = [],
     nextSeq = 0, inflight = [], resolvedLog = [] \<rparr>"


section \<open>Helpers for JavaScript values\<close>

text \<open>\<^verbatim>\<open>files[0]\<close>: the first element, \<^verbatim>\<open>undefined\<close> for an empty list.\<close>

fun first_file :: "jsfile list \<Rightarrow> jsfile option" where
  "first_file [] = None"
| "first_file (f # fs) = Some f"

text \<open>\<^verbatim>\<open>String.prototype.startsWith\<close>, case-sensitive, on the whole prefix.\<close>

definition startsWith :: "string \<Rightarrow> string \<Rightarrow> bool" where
  "startsWith s p = (take (length p) s = p)"

text \<open>A string variable in a condition: \<^verbatim>\<open>null\<close> and the empty string are falsy.\<close>

fun truthy :: "string option \<Rightarrow> bool" where
  "truthy None = False"
| "truthy (Some v) = (v \<noteq> [])"

section \<open>Collaborator calls\<close>

definition toast_error :: "string \<Rightarrow> state \<Rightarrow> state" where
  "toast_error msg s = s\<lparr>toasts := toasts s @ [ToastError msg]\<rparr>"

definition toast_warn :: "string \<Rightarrow> state \<Rightarrow> state" where
  "toast_warn msg s = s\<lparr>toasts := toasts s @ [ToastWarn msg]\<rparr>"

definition toast_success :: "string \<Rightarrow> state \<Rightarrow> state" where
  "toast_success msg s = s\<lparr>toasts := toasts s @ [ToastSuccess msg]\<rparr>"

definition console_error :: "string \<Rightarrow> string \<Rightarrow> state \<Rightarrow> state" where
  "console_error label msg s = s\<lparr>console := console s @ [(label, msg)]\<rparr>"

text \<open>
  \<^verbatim>\<open>fetch('/api/analyze-emotion', {method: 'POST', body: formData})\<close>: the request leaves
  and its promise is pending. The request gets the next number.
\<close>

definition fetch_analyze_emotion :: "request \<Rightarrow> state \<Rightarrow> state" where
  "fetch_analyze_emotion req s =
     s\<lparr>inflight := inflight s @ [(nextSeq s, req)], nextSeq := nextSeq s + 1\<rparr>"

text \<open>
  The first lines of both \<^verbatim>\<open>try\<close> blocks, which are the same text in the two handlers:
  a rejected fetch throws its error, a response that is not \<^verbatim>\<open>ok\<close> throws
  \<^verbatim>\<open>Error('Failed to analyze audio')\<close>, a body that does not parse throws, and otherwise
  \<^verbatim>\<open>data\<close> is the parsed body. \<open>Inl\<close> carries \<^verbatim>\<open>err.message\<close> to the \<^verbatim>\<open>catch\<close>.
\<close>

fun response_data :: "fetch_outcome \<Rightarrow> string + classification" where
  "response_data (FetchRejected msg) = Inl msg"
| "response_data (FetchResponse ok body) =
     (if \<not> ok then Inl ''Failed to analyze audio''
      else (case body of JsonRejected msg \<Rightarrow> Inl msg | JsonData d \<Rightarrow> Inr d))"

text \<open>\<^verbatim>\<open>URL.createObjectURL(file)\<close>: a fresh URL for the file.\<close>

definition createObjectURL :: "jsfile \<Rightarrow> state \<Rightarrow> state" where
  "createObjectURL f s =
     s\<lparr>audioData := Some (length (objectURLs s)), objectURLs := objectURLs s @ [f]\<rparr>"

section \<open>The functions of SPMEV.js\<close>

text \<open>\<^verbatim>\<open>emotionHistory.push({ time: new Date(), emotion })\<close>; \<open>now\<close> is the clock's reading.\<close>

definition updateEmotionHistory :: "string \<Rightarrow> nat \<Rightarrow> state \<Rightarrow> state" where
  "updateEmotionHistory e now s =
     s\<lparr>emotionHistory := emotionHistory s @ [\<lparr>entry_time = now, entry_emotion = e\<rparr>]\<rparr>"

text \<open>
  \<^verbatim>\<open>initWavesurfer\<close> destroys the instance it holds, if any, creates a new one and loads
  \<^verbatim>\<open>audioData\<close> into it.
\<close>

definition initWavesurfer :: "state \<Rightarrow> state" where
  "initWavesurfer s =
     (let s1 = (case wavesurfer s of
                  Some w \<Rightarrow> s\<lparr>surfersDestroyed := surfersDestroyed s @ [w]\<rparr>
                | None \<Rightarrow> s)
      in s1\<lparr>wavesurfer := Some (length (surfersCreated s1)),
             surfersCreated := surfersCreated s1 @ [audioData s1]\<rparr>)"

text \<open>
  \<^verbatim>\<open>initVisualizer\<close> builds a new audio context on the media element of the current
  instance and starts its drawing loop; the model records the context and its source.
\<close>

definition initVisualizer :: "state \<Rightarrow> state" where
  "initVisualizer s = s\<lparr>visualizers := visualizers s @ [wavesurfer s]\<rparr>"

text \<open>
  \<^verbatim>\<open>displayResults\<close> hands the emotion, the probabilities and the history to the page and
  the chart library; the model records what it is given. The charts themselves are drawn
  by the library and are not part of the model.
\<close>

definition displayResults :: "state \<Rightarrow> state" where
  "displayResults s =
     s\<lparr>resultsContainer := Some \<lparr>view_emotion = detectedEmotion s,
          view_probabilities = probabilities s, view_history = emotionHistory s\<rparr>\<rparr>"

definition updateUI :: "state \<Rightarrow> state" where
  "updateUI s =
     (let s1 = s\<lparr>loadingIndicator_display := isLoading s,
                  errorDisplay_textContent := (if truthy (error s) then the (error s) else [])\<rparr>;
          s2 = (if audioData s1 \<noteq> None then initVisualizer (initWavesurfer s1) else s1)
      in if truthy (detectedEmotion s2) then displayResults s2 else s2)"

text \<open>
  The file the handler picks: \<^verbatim>\<open>event.dataTransfer.files[0]\<close> when the event has a
  \<^verbatim>\<open>dataTransfer\<close>, \<^verbatim>\<open>event.target.files[0]\<close> otherwise.
\<close>

fun event_file :: "upload_event \<Rightarrow> jsfile option" where
  "event_file (Drop fs) = first_file fs"
| "event_file (Change fs) = first_file fs"

text \<open>
  \<^verbatim>\<open>handleFileUpload\<close> up to \<^verbatim>\<open>await fetch\<close>: no file, return; a type that does not start
  with \<^verbatim>\<open>audio/\<close>, one toast and return; otherwise the three assignments, \<^verbatim>\<open>updateUI\<close>
  and the request.
\<close>

definition handleFileUpload :: "upload_event \<Rightarrow> state \<Rightarrow> state" where
  "handleFileUpload ev s =
     (case event_file ev of
        None \<Rightarrow> s
      | Some f \<Rightarrow>
          if \<not> startsWith (file_type f) ''audio/''
          then toast_error ''Please upload an audio file'' s
          else fetch_analyze_emotion (UploadRequest f)
                 (updateUI (s\<lparr>fileName := file_name f, isLoading := True, error := None\<rparr>)))"

text \<open>
  \<^verbatim>\<open>handleFileUpload\<close> from the moment the response is there: the rest of the \<^verbatim>\<open>try\<close>
  block or the \<^verbatim>\<open>catch\<close> block, then the \<^verbatim>\<open>finally\<close> block. Nothing is assigned between
  the two awaits, so they are one step.
\<close>

definition handleFileUpload_settled :: "jsfile \<Rightarrow> fetch_outcome \<Rightarrow> nat \<Rightarrow> state \<Rightarrow> state" where
  "handleFileUpload_settled f outcome now s =
     (let s1 = (case response_data outcome of
                  Inr d \<Rightarrow>
                    toast_success ''Audio analysis complete''
                      (updateEmotionHistory (data_emotion d) now
                        (createObjectURL f
                          (s\<lparr>detectedEmotion := Some (data_emotion d),
                             probabilities := Some (data_probabilities d)\<rparr>)))
                | Inl msg \<Rightarrow> toast_error msg (s\<lparr>error := Some msg\<rparr>))
      in updateUI (s1\<lparr>isLoading := False\<rparr>))"

text \<open>
  \<^verbatim>\<open>togglePlayPause\<close>: with a player, the player is told to toggle, the flag is negated
  and the button relabelled; without one, nothing.
\<close>

definition togglePlayPause :: "state \<Rightarrow> state" where
  "togglePlayPause s =
     (case wavesurfer s of
        None \<Rightarrow> s
      | Some w \<Rightarrow>
          (let s1 = s\<lparr>playPauseCalls := playPauseCalls s @ [w]\<rparr>;
               s2 = s1\<lparr>isPlaying := \<not> isPlaying s1\<rparr>
           in s2\<lparr>playPauseButton_textContent := (if isPlaying s2 then ''Pause'' else ''Play'')\<rparr>))"

text \<open>
  \<^verbatim>\<open>handleVolumeChange\<close>; \<open>v\<close> is the slider's value as \<^verbatim>\<open>parseFloat\<close> reads it.
\<close>

definition handleVolumeChange :: "real \<Rightarrow> state \<Rightarrow> state" where
  "handleVolumeChange v s =
     (let s1 = s\<lparr>volume := v\<rparr>
      in case wavesurfer s1 of
           Some w \<Rightarrow> s1\<lparr>setVolumeCalls := setVolumeCalls s1 @ [(w, v)]\<rparr>
         | None \<Rightarrow> s1)"

datatype js_error = TypeError

text \<open>A method call on a variable: on \<^verbatim>\<open>null\<close> it throws a TypeError.\<close>

fun wavesurfer_setMute :: "nat option \<Rightarrow> bool \<Rightarrow> state \<Rightarrow> js_error + state" where
  "wavesurfer_setMute None m s = Inl TypeError"
| "wavesurfer_setMute (Some w) m s = Inr (s\<lparr>setMuteCalls := setMuteCalls s @ [(w, m)]\<rparr>)"

text \<open>\<^verbatim>\<open>toggleMute\<close>, with the exception it could throw kept as a value.\<close>

definition toggleMute :: "state \<Rightarrow> js_error + state" where
  "toggleMute s =
     (let s1 = s\<lparr>isMuted := \<not> isMuted s\<rparr>
      in case (if wavesurfer s1 \<noteq> None
               then wavesurfer_setMute (wavesurfer s1) (isMuted s1) s1
               else Inr s1) of
           Inl e \<Rightarrow> Inl e
         | Inr s2 \<Rightarrow>
             Inr (s2\<lparr>muteButton_textContent := (if isMuted s2 then ''Unmute'' else ''Mute'')\<rparr>))"

text \<open>
  \<^verbatim>\<open>startRealTimeDetection\<close> up to the call of \<^verbatim>\<open>getUserMedia\<close>, whose promise is pending
  afterwards.
\<close>

definition startRealTimeDetection :: "state \<Rightarrow> state" where
  "startRealTimeDetection s =
     s\<lparr>isRealTimeMode := True,
       realTimeButton_textContent := ''Stop Real-Time Detection'',
       deviceRequests := deviceRequests s + 1,
       devicePending := devicePending s + 1\<rparr>"

text \<open>
  The \<^verbatim>\<open>then\<close> callback: a new recorder on the stream, stored in \<^verbatim>\<open>mediaRecorder\<close> and
  started with a slice of 1000 ms. \<open>recorders\<close> lists the stream of every recorder
  started, \<open>recorderStopCalls\<close> every call of a recorder's \<^verbatim>\<open>stop\<close>.
\<close>

definition startRealTimeDetection_then :: "nat \<Rightarrow> state \<Rightarrow> state" where
  "startRealTimeDetection_then stream s =
     s\<lparr>mediaRecorder := Some (length (recorders s)), recorders := recorders s @ [stream]\<rparr>"

text \<open>The \<^verbatim>\<open>catch\<close> callback: one line on the console and one toast.\<close>

definition startRealTimeDetection_catch :: "string \<Rightarrow> state \<Rightarrow> state" where
  "startRealTimeDetection_catch msg s =
     toast_error ''Unable to access microphone''
       (console_error ''Error accessing microphone:'' msg s)"

definition stopRealTimeDetection :: "state \<Rightarrow> state" where
  "stopRealTimeDetection s =
     (let s1 = s\<lparr>isRealTimeMode := False,
                  realTimeButton_textContent := ''Start Real-Time Detection''\<rparr>
      in case mediaRecorder s1 of
           Some r \<Rightarrow> s1\<lparr>recorderStopCalls := recorderStopCalls s1 @ [r]\<rparr>
         | None \<Rightarrow> s1)"

definition toggleRealTimeMode :: "state \<Rightarrow> state" where
  "toggleRealTimeMode s =
     (if isRealTimeMode s then stopRealTimeDetection s else startRealTimeDetection s)"

text \<open>\<^verbatim>\<open>handleRealTimeAudioData\<close> up to \<^verbatim>\<open>await fetch\<close>: the chunk is sent, nothing else.\<close>

definition handleRealTimeAudioData :: "nat \<Rightarrow> state \<Rightarrow> state" where
  "handleRealTimeAudioData blob s = fetch_analyze_emotion (ChunkRequest blob) s"

text \<open>
  \<^verbatim>\<open>handleRealTimeAudioData\<close> from the moment the response is there: the rest of the
  \<^verbatim>\<open>try\<close> block, or the \<^verbatim>\<open>catch\<close> block, which writes to the console only.
\<close>

definition handleRealTimeAudioData_settled :: "fetch_outcome \<Rightarrow> nat \<Rightarrow> state \<Rightarrow> state" where
  "handleRealTimeAudioData_settled outcome now s =
     (case response_data outcome of
        Inr d \<Rightarrow>
          updateUI
            (updateEmotionHistory (data_emotion d) now
              (s\<lparr>detectedEmotion := Some (data_emotion d),
                 probabilities := Some (data_probabilities d)\<rparr>))
      | Inl msg \<Rightarrow> console_error ''Error in real-time analysis:'' msg s)"

text \<open>
  \<^verbatim>\<open>shareResults\<close>: with an emotion detected, its text goes to the share dialog or the
  fallback window; otherwise a warning toast.
\<close>

definition shareResults :: "state \<Rightarrow> state" where
  "shareResults s =
     (if truthy (detectedEmotion s) then s\<lparr>shares := shares s @ [the (detectedEmotion s)]\<rparr>
      else toast_warn ''Analyze an audio file first to share results'' s)"

section \<open>The event loop\<close>

text \<open>
  The browser runs one handler at a time. An event is a change or drop of files, the
  arrival of the answer to request \<open>k\<close> (with the clock's reading), a chunk delivered by
  recorder \<open>r\<close>, a click on one of the buttons, a move of the volume slider, the player
  reporting play or pause (the two callbacks \<^verbatim>\<open>initWavesurfer\<close> registers), or the answer
  of the capture device to the oldest pending request. An answer to a request that is
  not in flight, a chunk from a recorder that does not exist, a report without a player
  and an answer of the device when none was asked cannot happen and leave the state as
  it is. A handler that throws leaves the assignments it made before.
\<close>

datatype event =
    FileEvent upload_event
  | FetchSettled nat fetch_outcome nat
  | DataAvailable nat nat
  | ClickPlayPause
  | VolumeInput real
  | ClickMute
  | ClickRealTime
  | ClickShare
  | PlayerPlay
  | PlayerPause
  | DeviceGranted nat
  | DeviceDenied string

text \<open>
  The network's side of an answer: request \<open>k\<close> is no longer in flight, and a successful
  answer is added to the log of answers.
\<close>

definition settle :: "nat \<Rightarrow> fetch_outcome \<Rightarrow> state \<Rightarrow> state" where
  "settle k outcome s =
     s\<lparr>inflight := filter (\<lambda>p. fst p \<noteq> k) (inflight s),
       resolvedLog := (case response_data outcome of
                         Inr d \<Rightarrow> resolvedLog s @ [(k, d)]
                       | Inl msg \<Rightarrow> resolvedLog s)\<rparr>"

fun step :: "event \<Rightarrow> state \<Rightarrow> state" where
  "step (FileEvent ev) s = handleFileUpload ev s"
| "step (FetchSettled k outcome now) s =
     (case map_of (inflight s) k of
        None \<Rightarrow> s
      | Some (UploadRequest f) \<Rightarrow> handleFileUpload_settled f outcome now (settle k outcome s)
      | Some (ChunkRequest b) \<Rightarrow> handleRealTimeAudioData_settled outcome now (settle k outcome s))"
| "step (DataAvailable r blob) s =
     (if r < length (recorders s) then handleRealTimeAudioData blob s else s)"
| "step ClickPlayPause s = togglePlayPause s"
| "step (VolumeInput v) s = handleVolumeChange v s"
| "step ClickMute s =
     (case toggleMute s of Inr s' \<Rightarrow> s' | Inl e \<Rightarrow> s\<lparr>isMuted := \<not> isMuted s\<rparr>)"
| "step ClickRealTime s = toggleRealTimeMode s"
| "step ClickShare s = shareResults s"
| "step PlayerPlay s = (if wavesurfer s = None then s else s\<lparr>isPlaying := True\<rparr>)"
| "step PlayerPause s = (if wavesurfer s = None then s else s\<lparr>isPlaying := False\<rparr>)"
| "step (DeviceGranted stream) s =
     (if devicePending s = 0 then s
      else startRealTimeDetection_then stream (s\<lparr>devicePending := devicePending s - 1\<rparr>))"
| "step (DeviceDenied msg) s =
     (if devicePending s = 0 then s
      else startRealTimeDetection_catch msg (s\<lparr>devicePending := devicePending s - 1\<rparr>))"

fun run :: "event list \<Rightarrow> state \<Rightarrow> state" where
  "run [] s = s"
| "run (e # es) s = run es (step e s)"


section \<open>Properties of an execution\<close>

text \<open>
  The successful answer whose request has the highest number among those that arrived.
\<close>

fun highest_resolved :: "(nat \<times> classification) list \<Rightarrow> (nat \<times> classification) option" where
  "highest_resolved [] = None"
| "highest_resolved (p # ps) =
     (case highest_resolved ps of
        None \<Rightarrow> Some p
      | Some q \<Rightarrow> if fst p < fst q then Some q else Some p)"

text \<open>
  The rule as the specification words it: the current emotion and probabilities are
  those of the answer with the highest request number among the answers so far.
\<close>

definition spec_current_is_highest :: "state \<Rightarrow> bool" where
  "spec_current_is_highest s =
     (detectedEmotion s = map_option (data_emotion \<circ> snd) (highest_resolved (resolvedLog s)) \<and>
      probabilities s = map_option (data_probabilities \<circ> snd) (highest_resolved (resolvedLog s)))"

text \<open>What the script does: they are those of the answer that arrived last.\<close>

definition current_is_last :: "state \<Rightarrow> bool" where
  "current_is_last s =
     (case resolvedLog s of
        [] \<Rightarrow> detectedEmotion s = None \<and> probabilities s = None
      | p # ps \<Rightarrow>
          detectedEmotion s = Some (data_emotion (snd (last (p # ps)))) \<and>
          probabilities s = Some (data_probabilities (snd (last (p # ps)))))"

text \<open>The history lists the emotions of the successful answers in the order they arrived.\<close>

definition history_in_arrival_order :: "state \<Rightarrow> bool" where
  "history_in_arrival_order s =
     (map entry_emotion (emotionHistory s) = map (data_emotion \<circ> snd) (resolvedLog s))"

text \<open>
  The order as the specification words it: the emotions of the successful answers in the
  order of their request numbers.
\<close>

definition spec_history_in_issue_order :: "state \<Rightarrow> bool" where
  "spec_history_in_issue_order s =
     (map entry_emotion (emotionHistory s) =
      map (data_emotion \<circ> snd) (sort_key fst (resolvedLog s)))"

fun is_upload :: "nat \<times> request \<Rightarrow> bool" where
  "is_upload (k, UploadRequest f) = True"
| "is_upload (k, ChunkRequest b) = False"

definition uploads_inflight :: "state \<Rightarrow> (nat \<times> request) list" where
  "uploads_inflight s = filter is_upload (inflight s)"

text \<open>
  The loading flag as the specification words it: true exactly when the request of a
  file upload is in flight.
\<close>

definition spec_loading_exact :: "state \<Rightarrow> bool" where
  "spec_loading_exact s = (isLoading s = (uploads_inflight s \<noteq> []))"

text \<open>An event that sends the request of an upload: a file is there and its type is audio.\<close>

fun issues_upload :: "event \<Rightarrow> bool" where
  "issues_upload (FileEvent ev) =
     (case event_file ev of None \<Rightarrow> False | Some f \<Rightarrow> startsWith (file_type f) ''audio/'')"
| "issues_upload e = False"

text \<open>An execution in which no upload is sent while the request of another is in flight.\<close>

fun no_overlap :: "event list \<Rightarrow> state \<Rightarrow> bool" where
  "no_overlap [] s = True"
| "no_overlap (e # es) s =
     ((if issues_upload e then uploads_inflight s = [] else True) \<and> no_overlap es (step e s))"

text \<open>The requests in flight have distinct numbers, all below the next number.\<close>

definition numbered :: "state \<Rightarrow> bool" where
  "numbered s =
     (distinct (map fst (inflight s)) \<and> list_all (\<lambda>p. fst p < nextSeq s) (inflight s))"

text \<open>
  The states of executions without overlapping uploads: at most one upload in flight,
  the flag true exactly when there is one, and the indicator showing the flag.
\<close>

definition one_upload_loading :: "state \<Rightarrow> bool" where
  "one_upload_loading s =
     (numbered s \<and> length (uploads_inflight s) \<le> 1 \<and> spec_loading_exact s \<and>
      loadingIndicator_display s = isLoading s)"

section \<open>Concrete executions\<close>

definition happy_wav :: jsfile where
  "happy_wav = \<lparr>file_name = ''happy.wav'', file_type = ''audio/wav''\<rparr>"

definition sad_wav :: jsfile where
  "sad_wav = \<lparr>file_name = ''sad.wav'', file_type = ''audio/wav''\<rparr>"

definition notes_txt :: jsfile where
  "notes_txt = \<lparr>file_name = ''notes.txt'', file_type = ''text/plain''\<rparr>"

definition happy :: classification where
  "happy = \<lparr>data_emotion = ''happy'',
             data_probabilities = [(''happy'', 3 / 4), (''neutral'', 1 / 4)]\<rparr>"

definition neutral :: classification where
  "neutral = \<lparr>data_emotion = ''neutral'',
               data_probabilities = [(''happy'', 1 / 4), (''neutral'', 3 / 4)]\<rparr>"

text \<open>
  The scenario of the specification: \<^verbatim>\<open>happy.wav\<close> is uploaded (request 0), capture starts
  and sends a chunk (request 1), the chunk's answer arrives first, the upload's second.
\<close>

definition race :: "event list" where
  "race = [FileEvent (Change [happy_wav]), ClickRealTime, DeviceGranted 0, DataAvailable 0 7,
           FetchSettled 1 (FetchResponse True (JsonData neutral)) 100,
           FetchSettled 0 (FetchResponse True (JsonData happy)) 200]"

text \<open>Two uploads sent one after the other; the answer to the first arrives.\<close>

definition two_uploads :: "event list" where
  "two_uploads = [FileEvent (Change [happy_wav]), FileEvent (Drop [sad_wav]),
                  FetchSettled 0 (FetchResponse True (JsonData happy)) 100]"

text \<open>
  Capture runs, a file is uploaded, a chunk is sent, capture is stopped, and the chunk's
  answer arrives while the upload is still in flight.
\<close>

definition upload_then_chunk :: "event list" where
  "upload_then_chunk =
     [ClickRealTime, DeviceGranted 0, FileEvent (Change [happy_wav]), DataAvailable 0 7,
      ClickRealTime, FetchSettled 1 (FetchResponse True (JsonData neutral)) 100]"

text \<open>
  The same start, but the upload's answer arrives, capture is stopped, and only then the
  chunk's answer arrives.
\<close>

definition chunk_after_stop :: "event list" where
  "chunk_after_stop =
     [ClickRealTime, DeviceGranted 0, FileEvent (Change [happy_wav]), DataAvailable 0 7,
      FetchSettled 0 (FetchResponse True (JsonData happy)) 100, ClickRealTime,
      FetchSettled 1 (FetchResponse True (JsonData neutral)) 200]"

text \<open>
  Two uploads sent one after the other; the answer to the second arrives first and is
  a success, so the first is still in flight while the flag is already cleared.
\<close>

definition second_answers_first :: "event list" where
  "second_answers_first = [FileEvent (Change [happy_wav]), FileEvent (Drop [sad_wav]),
                           FetchSettled 1 (FetchResponse True (JsonData neutral)) 100]"

text \<open>The state after the button was clicked and the device granted: capture is active.\<close>

definition capturing :: state where
  "capturing = run [ClickRealTime, DeviceGranted 0] init_state"

text \<open>The button is clicked and the device refuses.\<close>

definition denied :: "event list" where
  "denied = [ClickRealTime, DeviceDenied ''Permission denied'']"

text \<open>Capture sends a chunk and the network fails.\<close>

definition chunk_fails :: "event list" where
  "chunk_fails = [ClickRealTime, DeviceGranted 0, DataAvailable 0 7,
                  FetchSettled 0 (FetchRejected ''Failed to fetch'') 100]"

section \<open>Lemmas about the handlers\<close>

lemmas scenario_defs = race_def two_uploads_def upload_then_chunk_def chunk_after_stop_def
  second_answers_first_def capturing_def denied_def
  chunk_fails_def happy_wav_def sad_wav_def notes_txt_def happy_def neutral_def init_state_def

lemmas handler_defs = handleFileUpload_def handleFileUpload_settled_def
  updateEmotionHistory_def createObjectURL_def toast_error_def toast_success_def console_error_def
  fetch_analyze_emotion_def handleRealTimeAudioData_def handleRealTimeAudioData_settled_def
  togglePlayPause_def handleVolumeChange_def shareResults_def toast_warn_def
  toggleMute_def startRealTimeDetection_def startRealTimeDetection_then_def
  startRealTimeDetection_catch_def stopRealTimeDetection_def toggleRealTimeMode_def
  settle_def Let_def

lemmas ui_defs = updateUI_def initWavesurfer_def initVisualizer_def displayResults_def
  startsWith_def

lemmas step_splits = option.splits request.splits sum.splits list.splits

text \<open>\<^verbatim>\<open>updateUI\<close> writes the page and the player, none of the variables below.\<close>

lemma updateUI_fields [simp]:
  "detectedEmotion (updateUI s) = detectedEmotion s"
  "probabilities (updateUI s) = probabilities s"
  "emotionHistory (updateUI s) = emotionHistory s"
  "isLoading (updateUI s) = isLoading s"
  "error (updateUI s) = error s"
  "fileName (updateUI s) = fileName s"
  "audioData (updateUI s) = audioData s"
  "toasts (updateUI s) = toasts s"
  "console (updateUI s) = console s"
  "resolvedLog (updateUI s) = resolvedLog s"
  "inflight (updateUI s) = inflight s"
  "nextSeq (updateUI s) = nextSeq s"
  "loadingIndicator_display (updateUI s) = isLoading s"
  by (simp_all add: updateUI_def initWavesurfer_def initVisualizer_def displayResults_def Let_def
        split: option.splits)

lemma settled_fields:
  "inflight (handleFileUpload_settled f outcome now t) = inflight t"
  "isLoading (handleFileUpload_settled f outcome now t) = False"
  "loadingIndicator_display (handleFileUpload_settled f outcome now t) = False"
  "inflight (handleRealTimeAudioData_settled outcome now t) = inflight t"
  "isLoading (handleRealTimeAudioData_settled outcome now t) = isLoading t"
  "inflight (settle k outcome s) = filter (\<lambda>p. fst p \<noteq> k) (inflight s)"
  "isLoading (settle k outcome s) = isLoading s"
  "loadingIndicator_display (settle k outcome s) = loadingIndicator_display s"
  by (simp_all add: handler_defs split: sum.splits)

lemma chunk_settled_indicator:
  "loadingIndicator_display t = isLoading t \<Longrightarrow>
     loadingIndicator_display (handleRealTimeAudioData_settled outcome now t) = isLoading t"
  by (simp add: handler_defs split: sum.splits)

lemma step_current_is_last: "current_is_last s \<Longrightarrow> current_is_last (step e s)"
  by (cases e) (auto simp: current_is_last_def handler_defs split: step_splits)

lemma step_history: "history_in_arrival_order s \<Longrightarrow> history_in_arrival_order (step e s)"
  by (cases e) (auto simp: history_in_arrival_order_def handler_defs split: step_splits)

lemma run_history: "history_in_arrival_order s \<Longrightarrow> history_in_arrival_order (run evs s)"
  by (induction evs arbitrary: s) (simp_all add: step_history)

text \<open>
  Answering the one upload in flight leaves no upload in flight; answering a chunk leaves
  the uploads in flight as they were.
\<close>

lemma uploads_filter_upload:
  assumes "distinct (map fst xs)" "map_of xs k = Some (UploadRequest f)"
          "length (filter is_upload xs) \<le> 1"
  shows "filter is_upload (filter (\<lambda>p. fst p \<noteq> k) xs) = []"
proof -
  from assms(2) have "(k, UploadRequest f) \<in> set xs" by (rule map_of_SomeD)
  then have "(k, UploadRequest f) \<in> set (filter is_upload xs)" by simp
  with assms(3) have eq: "filter is_upload xs = [(k, UploadRequest f)]"
    by (cases "filter is_upload xs") (auto split: if_splits)
  have "\<And>p. p \<in> set xs \<Longrightarrow> is_upload p \<Longrightarrow> fst p = k"
  proof -
    fix p assume "p \<in> set xs" "is_upload p"
    then have "p \<in> set (filter is_upload xs)" by simp
    with eq show "fst p = k" by simp
  qed
  then show ?thesis by (auto simp: filter_empty_conv)
qed

lemma uploads_filter_chunk:
  assumes "distinct (map fst xs)" "map_of xs k = Some (ChunkRequest b)"
  shows "filter is_upload (filter (\<lambda>p. fst p \<noteq> k) xs) = filter is_upload xs"
proof -
  have "\<And>p. p \<in> set xs \<Longrightarrow> is_upload p \<Longrightarrow> fst p \<noteq> k"
  proof
    fix p assume p: "p \<in> set xs" "is_upload p" "fst p = k"
    obtain k' r where pr: "p = (k', r)" by (cases p)
    with p assms(1) have "map_of xs k = Some r" by (auto intro: map_of_is_SomeI)
    with assms(2) pr p show False by simp
  qed
  then have "filter (\<lambda>p. is_upload p \<and> fst p \<noteq> k) xs = filter is_upload xs"
    by (intro filter_cong) auto
  then show ?thesis by (simp add: conj_commute)
qed

lemma numbered_filter:
  "numbered s \<Longrightarrow>
     distinct (map fst (filter (\<lambda>p. fst p \<noteq> k) (inflight s))) \<and>
     list_all (\<lambda>p. fst p < nextSeq s) (filter (\<lambda>p. fst p \<noteq> k) (inflight s))"
  by (auto simp: numbered_def list_all_iff distinct_map_filter)

lemma step_numbered: "numbered s \<Longrightarrow> numbered (step e s)"
proof (cases e)
  case (FetchSettled k outcome now)
  assume n: "numbered s"
  from n numbered_filter [OF n, of k] show ?thesis
    unfolding FetchSettled
    by (auto simp: numbered_def handler_defs split: step_splits)
next
  case (FileEvent ev)
  assume n: "numbered s"
  then show ?thesis unfolding FileEvent
    by (auto simp: numbered_def handler_defs list_all_iff split: step_splits)
next
  case (DataAvailable r b)
  assume n: "numbered s"
  then show ?thesis unfolding DataAvailable
    by (auto simp: numbered_def handler_defs list_all_iff split: step_splits)
qed (auto simp: numbered_def handler_defs split: step_splits)

lemma step_one_upload_loading:
  assumes inv: "one_upload_loading s"
      and ok: "issues_upload e \<Longrightarrow> uploads_inflight s = []"
  shows "one_upload_loading (step e s)"
proof -
  from inv have n: "numbered s" and one: "length (uploads_inflight s) \<le> 1"
    and ex: "isLoading s = (uploads_inflight s \<noteq> [])"
    and ind: "loadingIndicator_display s = isLoading s"
    by (simp_all add: one_upload_loading_def spec_loading_exact_def)
  have n': "numbered (step e s)" using n by (rule step_numbered)
  have "length (uploads_inflight (step e s)) \<le> 1 \<and>
        isLoading (step e s) = (uploads_inflight (step e s) \<noteq> []) \<and>
        loadingIndicator_display (step e s) = isLoading (step e s)"
  proof (cases e)
    case (FileEvent ev)
    show ?thesis
    proof (cases "issues_upload e")
      case True
      with ok have "uploads_inflight s = []" by simp
      with True show ?thesis unfolding FileEvent
        by (auto simp: uploads_inflight_def handler_defs split: step_splits)
    next
      case False
      with one ex ind show ?thesis unfolding FileEvent
        by (auto simp: uploads_inflight_def handler_defs split: step_splits)
    qed
  next
    case (FetchSettled k outcome now)
    show ?thesis
    proof (cases "map_of (inflight s) k")
      case None
      with one ex ind show ?thesis unfolding FetchSettled by simp
    next
      case (Some req)
      from n have d: "distinct (map fst (inflight s))" by (simp add: numbered_def)
      show ?thesis
      proof (cases req)
        case (UploadRequest f)
        with Some have m: "map_of (inflight s) k = Some (UploadRequest f)" by simp
        from uploads_filter_upload [OF d m] one
        have "filter is_upload (filter (\<lambda>p. fst p \<noteq> k) (inflight s)) = []"
          by (simp add: uploads_inflight_def)
        with m show ?thesis unfolding FetchSettled
          by (simp add: uploads_inflight_def settled_fields del: filter_filter)
      next
        case (ChunkRequest b)
        with Some have m: "map_of (inflight s) k = Some (ChunkRequest b)" by simp
        from uploads_filter_chunk [OF d m]
        have "filter is_upload (filter (\<lambda>p. fst p \<noteq> k) (inflight s)) =
              filter is_upload (inflight s)" .
        with m one ex ind show ?thesis unfolding FetchSettled
          by (simp add: uploads_inflight_def settled_fields chunk_settled_indicator
                del: filter_filter)
      qed
    qed
  next
    case (DataAvailable r b)
    with one ex ind show ?thesis
      by (auto simp: uploads_inflight_def handler_defs)
  qed (use one ex ind in \<open>auto simp: uploads_inflight_def handler_defs split: step_splits\<close>)
  with n' show ?thesis by (simp add: one_upload_loading_def spec_loading_exact_def)
qed

lemma run_one_upload_loading:
  "one_upload_loading s \<Longrightarrow> no_overlap evs s \<Longrightarrow> one_upload_loading (run evs s)"
proof (induction evs arbitrary: s)
  case Nil
  then show ?case by simp
next
  case (Cons e es)
  from Cons.prems have "one_upload_loading (step e s)"
    by (intro step_one_upload_loading) (auto split: if_splits)
  moreover from Cons.prems have "no_overlap es (step e s)" by simp
  ultimately show ?case using Cons.IH by simp
qed

section \<open>Which answer is current\<close>

text \<open>
  In the scenario \<open>race\<close> the upload is request 0 and the chunk request 1. After both
  answers the script shows the upload's emotion, although the chunk's request has the
  higher number: the script has no request numbers and every successful answer assigns
  \<^verbatim>\<open>detectedEmotion\<close>.
\<close>

theorem late_answer_overwrites_current:
  "detectedEmotion (run race init_state) = Some ''happy'' \<and>
   map_option (data_emotion \<circ> snd) (highest_resolved (resolvedLog (run race init_state)))
     = Some ''neutral'' \<and>
   \<not> spec_current_is_highest (run race init_state)"
  by (simp add: scenario_defs handler_defs ui_defs spec_current_is_highest_def)

text \<open>
  C1, as the script has it: in every execution, whatever the order of the answers, the
  current emotion and probabilities are those of the successful answer that arrived
  last (and are unset while there is none). The property holds at the start and every
  event keeps it.
\<close>

theorem current_result_is_last_resolved:
  "current_is_last s \<Longrightarrow> current_is_last (run evs s)"
  by (induction evs arbitrary: s) (simp_all add: step_current_is_last)

theorem current_result_is_last_resolved_witness:
  "current_is_last init_state \<and> current_is_last (run race init_state)"
proof -
  have h: "current_is_last init_state"
    by (simp add: current_is_last_def init_state_def)
  from current_result_is_last_resolved [OF h, of race] h show ?thesis by simp
qed

section \<open>The order of the history\<close>

text \<open>
  In the scenario \<open>race\<close> the history reads neutral, happy: the order in which the answers
  arrived. The order of the requests is happy, neutral.
\<close>

theorem history_not_in_issue_order:
  "map entry_emotion (emotionHistory (run race init_state)) = [''neutral'', ''happy''] \<and>
   map (data_emotion \<circ> snd) (sort_key fst (resolvedLog (run race init_state)))
     = [''happy'', ''neutral''] \<and>
   \<not> spec_history_in_issue_order (run race init_state)"
  by (simp add: scenario_defs handler_defs ui_defs spec_history_in_issue_order_def)

text \<open>
  C2, as the script has it: in every execution the history holds one entry for each
  successful answer, in the order in which the answers arrived; after N successful
  answers it has N entries.
\<close>

theorem history_is_arrival_order:
  "history_in_arrival_order s \<Longrightarrow>
     history_in_arrival_order (run evs s) \<and>
     length (emotionHistory (run evs s)) = length (resolvedLog (run evs s))"
proof -
  assume "history_in_arrival_order s"
  then have r: "history_in_arrival_order (run evs s)" by (rule run_history)
  then have "length (map entry_emotion (emotionHistory (run evs s))) =
             length (map (data_emotion \<circ> snd) (resolvedLog (run evs s)))"
    by (simp only: history_in_arrival_order_def)
  with r show ?thesis by simp
qed

theorem history_is_arrival_order_witness:
  "history_in_arrival_order init_state \<and>
   history_in_arrival_order (run race init_state) \<and>
   length (emotionHistory (run race init_state)) = 2"
proof -
  have h: "history_in_arrival_order init_state"
    by (simp add: history_in_arrival_order_def init_state_def)
  have v: "length (resolvedLog (run race init_state)) = 2"
    by (simp add: scenario_defs handler_defs ui_defs)
  from history_is_arrival_order [OF h, of race] h v show ?thesis by simp
qed

section \<open>The loading flag\<close>

text \<open>
  With two uploads in flight, the answer to the first clears the flag while the second
  is still in flight: the flag is a boolean, assigned \<^verbatim>\<open>false\<close> in every \<^verbatim>\<open>finally\<close>.
\<close>

theorem overlapping_upload_clears_loading:
  "isLoading (run two_uploads init_state) = False \<and>
   uploads_inflight (run two_uploads init_state) = [(1, UploadRequest sad_wav)] \<and>
   \<not> spec_loading_exact (run two_uploads init_state)"
  by (simp add: scenario_defs handler_defs ui_defs spec_loading_exact_def uploads_inflight_def)

text \<open>
  C3, as the script has it: in every execution in which no upload is sent while another
  is in flight, the loading flag is true exactly when the request of an upload is in
  flight, and the loading indicator shows the flag. In any state \<open>t\<close>, sending a chunk
  and receiving its answer leave the flag as it is, the answer to an upload clears it,
  success or failure, and an upload that is sent sets it.
\<close>

theorem loading_tracks_single_upload:
  "one_upload_loading s \<Longrightarrow> no_overlap evs s \<Longrightarrow>
     isLoading (run evs s) = (uploads_inflight (run evs s) \<noteq> []) \<and>
     loadingIndicator_display (run evs s) = isLoading (run evs s) \<and>
     isLoading (handleRealTimeAudioData blob t) = isLoading t \<and>
     isLoading (handleRealTimeAudioData_settled outcome now t) = isLoading t \<and>
     isLoading (handleFileUpload_settled f outcome now t) = False \<and>
     (issues_upload (FileEvent ev) \<longrightarrow> isLoading (handleFileUpload ev t) = True)"
proof -
  assume a: "one_upload_loading s" "no_overlap evs s"
  from run_one_upload_loading [OF a]
  have 1: "isLoading (run evs s) = (uploads_inflight (run evs s) \<noteq> [])"
    and 2: "loadingIndicator_display (run evs s) = isLoading (run evs s)"
    by (simp_all add: one_upload_loading_def spec_loading_exact_def)
  have 3: "isLoading (handleRealTimeAudioData blob t) = isLoading t"
    by (simp add: handler_defs)
  have 4: "isLoading (handleRealTimeAudioData_settled outcome now t) = isLoading t"
    by (simp add: settled_fields)
  have 5: "isLoading (handleFileUpload_settled f outcome now t) = False"
    by (simp add: settled_fields)
  have 6: "issues_upload (FileEvent ev) \<longrightarrow> isLoading (handleFileUpload ev t) = True"
    by (auto simp: handler_defs split: option.splits)
  from 1 2 3 4 5 6 show ?thesis by blast
qed

theorem loading_tracks_single_upload_witness:
  "one_upload_loading init_state \<and> no_overlap upload_then_chunk init_state \<and>
   no_overlap chunk_after_stop init_state \<and>
   issues_upload (FileEvent (Change [happy_wav])) \<and>
   isLoading (run upload_then_chunk init_state) = True \<and>
   loadingIndicator_display (run upload_then_chunk init_state) = True \<and>
   uploads_inflight (run upload_then_chunk init_state) = [(0, UploadRequest happy_wav)] \<and>
   isLoading (run chunk_after_stop init_state) = False \<and>
   loadingIndicator_display (run chunk_after_stop init_state) = False \<and>
   uploads_inflight (run chunk_after_stop init_state) = [] \<and>
   isLoading (handleFileUpload (Change [happy_wav]) init_state) = True"
proof -
  have h2': "no_overlap chunk_after_stop init_state"
    by (simp add: scenario_defs handler_defs ui_defs uploads_inflight_def)
  have v': "uploads_inflight (run chunk_after_stop init_state) = []"
    by (simp add: scenario_defs handler_defs ui_defs uploads_inflight_def)
  have h1: "one_upload_loading init_state"
    by (simp add: one_upload_loading_def numbered_def spec_loading_exact_def
          uploads_inflight_def init_state_def)
  have h2: "no_overlap upload_then_chunk init_state"
    by (simp add: scenario_defs handler_defs ui_defs uploads_inflight_def)
  have h3: "issues_upload (FileEvent (Change [happy_wav]))"
    by (simp add: happy_wav_def startsWith_def)
  have v: "uploads_inflight (run upload_then_chunk init_state) = [(0, UploadRequest happy_wav)]"
    by (simp add: scenario_defs handler_defs ui_defs uploads_inflight_def)
  from loading_tracks_single_upload [OF h1 h2, where ev = "Change [happy_wav]" and t = init_state]
    loading_tracks_single_upload [OF h1 h2', where ev = "Change [happy_wav]" and t = init_state]
    h1 h2 h2' h3 v v'
  show ?thesis by simp
qed

section \<open>Files that are not audio\<close>

text \<open>
  C4: when the selected file's type does not start with \<^verbatim>\<open>audio/\<close>, the upload handler
  shows one error toast and returns. The state afterwards is the state before with that
  toast added: no variable is assigned, the page is not written, and no request is sent.
\<close>

theorem non_audio_file_rejected:
  "event_file ev = Some f \<Longrightarrow> \<not> startsWith (file_type f) ''audio/'' \<Longrightarrow>
     handleFileUpload ev s =
       s\<lparr>toasts := toasts s @ [ToastError ''Please upload an audio file'']\<rparr>"
  by (simp add: handleFileUpload_def toast_error_def)

theorem non_audio_file_rejected_witness:
  "event_file (Change [notes_txt]) = Some notes_txt \<and>
   \<not> startsWith (file_type notes_txt) ''audio/'' \<and>
   handleFileUpload (Change [notes_txt]) init_state =
     init_state\<lparr>toasts := [ToastError ''Please upload an audio file'']\<rparr>"
proof -
  have h1: "event_file (Change [notes_txt]) = Some notes_txt" by simp
  have h2: "\<not> startsWith (file_type notes_txt) ''audio/''"
    by (simp add: notes_txt_def startsWith_def)
  have t: "toasts init_state = []" by (simp add: init_state_def)
  from non_audio_file_rejected [OF h1 h2, of init_state] h1 h2 t show ?thesis by simp
qed

section \<open>Starting and stopping capture\<close>

text \<open>
  \<^verbatim>\<open>startRealTimeDetection\<close> has no check of its own: called while capture is active, it
  asks for the device a second time and changes the state.
\<close>

theorem start_while_capturing_requests_device:
  "isRealTimeMode capturing \<and> mediaRecorder capturing = Some 0 \<and>
   deviceRequests capturing = 1 \<and>
   deviceRequests (startRealTimeDetection capturing) = 2 \<and>
   startRealTimeDetection capturing \<noteq> capturing"
proof -
  have a: "isRealTimeMode capturing \<and> mediaRecorder capturing = Some 0 \<and>
           deviceRequests capturing = 1 \<and>
           deviceRequests (startRealTimeDetection capturing) = 2"
    by (simp add: scenario_defs handler_defs)
  then have "deviceRequests (startRealTimeDetection capturing) \<noteq> deviceRequests capturing"
    by simp
  then have "startRealTimeDetection capturing \<noteq> capturing" by metis
  with a show ?thesis by simp
qed

text \<open>
  C5, as the script has it: the check is in the button's handler. When the real-time
  flag is set, \<^verbatim>\<open>toggleRealTimeMode\<close> stops capture instead of starting it: it asks for no
  device and starts no recorder. \<^verbatim>\<open>startRealTimeDetection\<close> itself asks for the device on
  every call.
\<close>

theorem toggle_never_starts_while_active:
  "isRealTimeMode s \<Longrightarrow>
     toggleRealTimeMode s = stopRealTimeDetection s \<and>
     deviceRequests (toggleRealTimeMode s) = deviceRequests s \<and>
     recorders (toggleRealTimeMode s) = recorders s \<and>
     deviceRequests (startRealTimeDetection s) = deviceRequests s + 1"
  by (simp add: toggleRealTimeMode_def stopRealTimeDetection_def startRealTimeDetection_def
        Let_def split: option.splits)

theorem toggle_never_starts_while_active_witness:
  "isRealTimeMode capturing \<and>
   toggleRealTimeMode capturing = stopRealTimeDetection capturing \<and>
   deviceRequests (toggleRealTimeMode capturing) = 1 \<and>
   recorders (toggleRealTimeMode capturing) = [0]"
proof -
  have h: "isRealTimeMode capturing" by (simp add: scenario_defs handler_defs)
  have v: "deviceRequests capturing = 1" "recorders capturing = [0]"
    by (simp_all add: scenario_defs handler_defs)
  from toggle_never_starts_while_active [OF h] h v show ?thesis by auto
qed

text \<open>
  \<^verbatim>\<open>stopRealTimeDetection\<close> never clears \<^verbatim>\<open>mediaRecorder\<close>, so a second call finds the
  recorder again and calls its \<^verbatim>\<open>stop\<close> again.
\<close>

theorem second_stop_calls_recorder_again:
  "recorderStopCalls (stopRealTimeDetection capturing) = [0] \<and>
   recorderStopCalls (stopRealTimeDetection (stopRealTimeDetection capturing)) = [0, 0] \<and>
   stopRealTimeDetection (stopRealTimeDetection capturing) \<noteq> stopRealTimeDetection capturing"
proof -
  have a: "recorderStopCalls (stopRealTimeDetection capturing) = [0] \<and>
           recorderStopCalls (stopRealTimeDetection (stopRealTimeDetection capturing)) = [0, 0]"
    by (simp add: scenario_defs handler_defs)
  then have "recorderStopCalls (stopRealTimeDetection (stopRealTimeDetection capturing)) \<noteq>
             recorderStopCalls (stopRealTimeDetection capturing)"
    by simp
  then have "stopRealTimeDetection (stopRealTimeDetection capturing) \<noteq>
             stopRealTimeDetection capturing"
    by metis
  with a show ?thesis by simp
qed

text \<open>
  C6, as the script has it: a second call of \<^verbatim>\<open>stopRealTimeDetection\<close> leaves every
  variable of the script and the button's label as the first call left them; the only
  difference is one more call of the recorder's \<^verbatim>\<open>stop\<close> when a recorder exists, and no
  difference at all when none was ever created.
\<close>

theorem stop_twice_repeats_only_recorder_call:
  "stopRealTimeDetection (stopRealTimeDetection s) =
     (stopRealTimeDetection s)\<lparr>recorderStopCalls :=
        recorderStopCalls (stopRealTimeDetection s) @
          (case mediaRecorder s of None \<Rightarrow> [] | Some r \<Rightarrow> [r])\<rparr>"
  by (simp add: stopRealTimeDetection_def split: option.splits)

text \<open>
  C7: when the device refuses, the script writes to the console and shows the toast
  \<^verbatim>\<open>Unable to access microphone\<close>, but \<^verbatim>\<open>isRealTimeMode\<close>, set before the device was asked,
  is not reset: the flag stays true and the button still reads
  \<^verbatim>\<open>Stop Real-Time Detection\<close>, with no recorder and no request pending.
\<close>

theorem device_denied_leaves_realtime_flag_set:
  "isRealTimeMode (run denied init_state) = True \<and>
   realTimeButton_textContent (run denied init_state) = ''Stop Real-Time Detection'' \<and>
   toasts (run denied init_state) = [ToastError ''Unable to access microphone''] \<and>
   mediaRecorder (run denied init_state) = None \<and>
   recorders (run denied init_state) = [] \<and>
   devicePending (run denied init_state) = 0"
  by (simp add: scenario_defs handler_defs)

section \<open>Failures of the classification request\<close>

text \<open>
  A chunk whose request fails leaves the error variable, the error text and the toasts
  untouched: its \<^verbatim>\<open>catch\<close> block writes to the console only.
\<close>

theorem chunk_failure_only_on_console:
  "error (run chunk_fails init_state) = None \<and>
   toasts (run chunk_fails init_state) = [] \<and>
   errorDisplay_textContent (run chunk_fails init_state) = [] \<and>
   console (run chunk_fails init_state) =
     [(''Error in real-time analysis:'', ''Failed to fetch'')]"
  by (simp add: scenario_defs handler_defs)

text \<open>
  C8, as the script has it: every failure of a request (the fetch rejects, the response
  is not \<^verbatim>\<open>ok\<close>, or the body does not parse) is caught by the handler that sent it, and
  the handler returns a state. For an upload the message is stored in \<^verbatim>\<open>error\<close>, written
  to the error text and shown as an error toast. For a chunk the message goes to the
  console and nothing else changes.
\<close>

theorem request_failures_are_caught:
  "response_data outcome = Inl msg \<Longrightarrow>
     error (handleFileUpload_settled f outcome now s) = Some msg \<and>
     toasts (handleFileUpload_settled f outcome now s) = toasts s @ [ToastError msg] \<and>
     errorDisplay_textContent (handleFileUpload_settled f outcome now s) = msg \<and>
     handleRealTimeAudioData_settled outcome now s =
       s\<lparr>console := console s @ [(''Error in real-time analysis:'', msg)]\<rparr>"
  by (auto simp add: handleFileUpload_settled_def handleRealTimeAudioData_settled_def
        toast_error_def console_error_def Let_def ui_defs split: option.splits)

theorem request_failures_are_caught_witness:
  "response_data (FetchResponse False (JsonData happy)) = Inl ''Failed to analyze audio'' \<and>
   error (handleFileUpload_settled happy_wav (FetchResponse False (JsonData happy)) 100 init_state)
     = Some ''Failed to analyze audio'' \<and>
   toasts (handleFileUpload_settled happy_wav (FetchResponse False (JsonData happy)) 100 init_state)
     = [ToastError ''Failed to analyze audio''] \<and>
   handleRealTimeAudioData_settled (FetchResponse False (JsonData happy)) 100 init_state =
     init_state\<lparr>console := [(''Error in real-time analysis:'', ''Failed to analyze audio'')]\<rparr>"
proof -
  have h: "response_data (FetchResponse False (JsonData happy)) = Inl ''Failed to analyze audio''"
    by simp
  have v: "toasts init_state = []" "console init_state = []"
    by (simp_all add: init_state_def)
  from request_failures_are_caught [OF h, of happy_wav 100 init_state] h v
  show ?thesis by simp
qed

text \<open>
  C9: an upload of an audio file whose request fails leaves the current emotion, the
  probabilities, the loaded audio and the history unchanged, and changes the file name.
  The two halves of the handler are framed separately, each on a state of its own, since
  other events may run between them. Sending the request from any state \<open>s\<close> assigns the
  failed upload's name to the file name, before the request leaves, and leaves the four
  variables as they are in \<open>s\<close>. Handling the failed answer in any state \<open>t\<close>, whatever
  happened since the request was sent, leaves the four variables and the file name as
  they are in \<open>t\<close>; so does the event of the answer in the event loop. With no event in
  between, the four variables are those of \<open>s\<close> and the name is the failed upload's.
\<close>

theorem failed_upload_keeps_result_changes_name:
  "event_file ev = Some f \<Longrightarrow> startsWith (file_type f) ''audio/'' \<Longrightarrow>
   response_data outcome = Inl msg \<Longrightarrow>
     (fileName (handleFileUpload ev s) = file_name f \<and>
      detectedEmotion (handleFileUpload ev s) = detectedEmotion s \<and>
      probabilities (handleFileUpload ev s) = probabilities s \<and>
      audioData (handleFileUpload ev s) = audioData s \<and>
      emotionHistory (handleFileUpload ev s) = emotionHistory s) \<and>
     (detectedEmotion (handleFileUpload_settled f outcome now t) = detectedEmotion t \<and>
      probabilities (handleFileUpload_settled f outcome now t) = probabilities t \<and>
      audioData (handleFileUpload_settled f outcome now t) = audioData t \<and>
      emotionHistory (handleFileUpload_settled f outcome now t) = emotionHistory t \<and>
      fileName (handleFileUpload_settled f outcome now t) = fileName t) \<and>
     (map_of (inflight t) k = Some (UploadRequest f) \<longrightarrow>
        detectedEmotion (step (FetchSettled k outcome now) t) = detectedEmotion t \<and>
        probabilities (step (FetchSettled k outcome now) t) = probabilities t \<and>
        audioData (step (FetchSettled k outcome now) t) = audioData t \<and>
        emotionHistory (step (FetchSettled k outcome now) t) = emotionHistory t \<and>
        fileName (step (FetchSettled k outcome now) t) = fileName t) \<and>
     (detectedEmotion (handleFileUpload_settled f outcome now (handleFileUpload ev s))
        = detectedEmotion s \<and>
      probabilities (handleFileUpload_settled f outcome now (handleFileUpload ev s))
        = probabilities s \<and>
      audioData (handleFileUpload_settled f outcome now (handleFileUpload ev s))
        = audioData s \<and>
      emotionHistory (handleFileUpload_settled f outcome now (handleFileUpload ev s))
        = emotionHistory s \<and>
      fileName (handleFileUpload_settled f outcome now (handleFileUpload ev s))
        = file_name f)"
proof -
  assume picked: "event_file ev = Some f" and audio: "startsWith (file_type f) ''audio/''"
    and fails: "response_data outcome = Inl msg"
  have issue:
    "fileName (handleFileUpload ev s) = file_name f \<and>
     detectedEmotion (handleFileUpload ev s) = detectedEmotion s \<and>
     probabilities (handleFileUpload ev s) = probabilities s \<and>
     audioData (handleFileUpload ev s) = audioData s \<and>
     emotionHistory (handleFileUpload ev s) = emotionHistory s"
    using picked audio by (simp add: handleFileUpload_def fetch_analyze_emotion_def)
  have settled:
    "detectedEmotion (handleFileUpload_settled f outcome now u) = detectedEmotion u \<and>
     probabilities (handleFileUpload_settled f outcome now u) = probabilities u \<and>
     audioData (handleFileUpload_settled f outcome now u) = audioData u \<and>
     emotionHistory (handleFileUpload_settled f outcome now u) = emotionHistory u \<and>
     fileName (handleFileUpload_settled f outcome now u) = fileName u" for u
    using fails by (simp add: handleFileUpload_settled_def toast_error_def Let_def)
  have loop:
    "map_of (inflight t) k = Some (UploadRequest f) \<longrightarrow>
       detectedEmotion (step (FetchSettled k outcome now) t) = detectedEmotion t \<and>
       probabilities (step (FetchSettled k outcome now) t) = probabilities t \<and>
       audioData (step (FetchSettled k outcome now) t) = audioData t \<and>
       emotionHistory (step (FetchSettled k outcome now) t) = emotionHistory t \<and>
       fileName (step (FetchSettled k outcome now) t) = fileName t"
    using settled [of "settle k outcome t"] by (simp add: settle_def)
  from issue settled [of t] settled [of "handleFileUpload ev s"] loop
  show ?thesis by simp
qed

text \<open>
  The witness takes the failure in a state the program reaches with other events in
  between: two uploads are in flight, the second is answered with success (which clears
  the loading flag and sets the emotion to neutral), and then the first fails. The
  emotion stays neutral, the history keeps its one entry, the audio stays loaded, and the
  name is that of the second upload, assigned when that one was sent.
\<close>

theorem failed_upload_keeps_result_changes_name_witness:
  "event_file (Change [happy_wav]) = Some happy_wav \<and>
   startsWith (file_type happy_wav) ''audio/'' \<and>
   response_data (FetchRejected ''Failed to fetch'') = Inl ''Failed to fetch'' \<and>
   map_of (inflight (run second_answers_first init_state)) 0 = Some (UploadRequest happy_wav) \<and>
   isLoading (run second_answers_first init_state) = False \<and>
   fileName (handleFileUpload (Change [happy_wav]) init_state) = ''happy.wav'' \<and>
   detectedEmotion (step (FetchSettled 0 (FetchRejected ''Failed to fetch'') 200)
       (run second_answers_first init_state)) = Some ''neutral'' \<and>
   probabilities (step (FetchSettled 0 (FetchRejected ''Failed to fetch'') 200)
       (run second_answers_first init_state)) = Some (data_probabilities neutral) \<and>
   audioData (step (FetchSettled 0 (FetchRejected ''Failed to fetch'') 200)
       (run second_answers_first init_state)) = Some 0 \<and>
   map entry_emotion (emotionHistory (step (FetchSettled 0 (FetchRejected ''Failed to fetch'') 200)
       (run second_answers_first init_state))) = [''neutral''] \<and>
   fileName (step (FetchSettled 0 (FetchRejected ''Failed to fetch'') 200)
       (run second_answers_first init_state)) = ''sad.wav'' \<and>
   detectedEmotion (handleFileUpload_settled happy_wav (FetchRejected ''Failed to fetch'') 200
       (run second_answers_first init_state)) = Some ''neutral''"
proof -
  have h1: "event_file (Change [happy_wav]) = Some happy_wav" by simp
  have h2: "startsWith (file_type happy_wav) ''audio/''"
    by (simp add: happy_wav_def startsWith_def)
  have h3: "response_data (FetchRejected ''Failed to fetch'') = Inl ''Failed to fetch''"
    by simp
  have h4: "map_of (inflight (run second_answers_first init_state)) 0
              = Some (UploadRequest happy_wav)"
    by (simp add: scenario_defs handler_defs ui_defs)
  have v: "isLoading (run second_answers_first init_state) = False"
          "detectedEmotion (run second_answers_first init_state) = Some ''neutral''"
          "probabilities (run second_answers_first init_state) = Some (data_probabilities neutral)"
          "audioData (run second_answers_first init_state) = Some 0"
          "map entry_emotion (emotionHistory (run second_answers_first init_state)) = [''neutral'']"
          "fileName (run second_answers_first init_state) = ''sad.wav''"
    by (simp_all add: scenario_defs handler_defs ui_defs)
  have n: "file_name happy_wav = ''happy.wav''" by (simp add: happy_wav_def)
  from failed_upload_keeps_result_changes_name [OF h1 h2 h3,
      of init_state 200 "run second_answers_first init_state" 0]
    h1 h2 h3 h4 v n
  show ?thesis by simp
qed

section \<open>Mute\<close>

text \<open>
  C10: in every state, with a player or without one, \<^verbatim>\<open>toggleMute\<close> returns normally
  and negates the muted flag, and a second call returns normally and restores it.
\<close>

theorem toggleMute_involution:
  "\<exists>s1 s2. toggleMute s = Inr s1 \<and> toggleMute s1 = Inr s2 \<and>
     isMuted s1 = (\<not> isMuted s) \<and> isMuted s2 = isMuted s"
  by (cases "wavesurfer s") (simp_all add: toggleMute_def Let_def)

end
